theory Spec2Isabelle
  imports Main "HOL-Library.Sublist" "HOL-Library.AList" "HOL-Library.Word"
begin

unbundle bit_operations_syntax

section \<open>Text and regular-expression scanning\<close>

text \<open>
  A Python \<open>str\<close> is modelled by its UTF-8 encoding, a \<^typ>\<open>string\<close> (list of
  bytes). The delimiters the script looks for (\<open>{ } [ ]\<close>, the comma and the space) are
  ASCII, and no byte of a multi-byte UTF-8 sequence is ASCII, so scanning the bytes finds
  the same spans as scanning the code points; \<open>match.encode()\<close> is then the identity.
\<close>

text \<open>
  \<open>re.compile(r'\{.*?\}', re.DOTALL).findall(text)\<close> and its sibling for brackets:
  with \<open>DOTALL\<close> the dot matches every character, and the lazy star stops at the first
  closing delimiter. The engine looks for the next opening delimiter (\<open>scan_open\<close>), then
  extends the match one character at a time until the first closing delimiter
  (\<open>scan_close\<close>, which carries the text matched so far), reports the match and resumes
  behind it. An opening delimiter with no closing delimiter behind it matches nothing, and
  neither does any later start position.
\<close>

fun scan_open :: "char \<Rightarrow> char \<Rightarrow> string \<Rightarrow> string list"
  and scan_close :: "char \<Rightarrow> char \<Rightarrow> string \<Rightarrow> string \<Rightarrow> string list" where
  "scan_open a b [] = []"
| "scan_open a b (c # cs) = (if c = a then scan_close a b [c] cs else scan_open a b cs)"
| "scan_close a b acc [] = []"
| "scan_close a b acc (c # cs) =
     (if c = b then (acc @ [c]) # scan_open a b cs else scan_close a b (acc @ [c]) cs)"

definition findall_braces :: "string \<Rightarrow> string list" where
  "findall_braces text = scan_open (CHR ''{'') (CHR ''}'') text"

definition findall_brackets :: "string \<Rightarrow> string list" where
  "findall_brackets text = scan_open (CHR ''['') (CHR '']'') text"

section \<open>String methods\<close>

text \<open>\<open>s.strip(chars)\<close>: drops every leading and every trailing character that occurs in
  \<open>chars\<close>.\<close>

definition str_strip :: "string \<Rightarrow> string \<Rightarrow> string" where
  "str_strip chars s =
     rev (dropWhile (\<lambda>c. c \<in> set chars) (rev (dropWhile (\<lambda>c. c \<in> set chars) s)))"

text \<open>
  \<open>s.split(sep)\<close> for a non-empty separator: the text is cut at each occurrence of \<open>sep\<close>,
  found from left to right without overlap; \<open>cur\<close> is the piece being collected. (Python
  raises \<open>ValueError\<close> for an empty separator; the script only ever passes \<open>', '\<close>, and
  with an empty separator \<open>split_from\<close> never cuts.)
\<close>

fun split_from :: "string \<Rightarrow> string \<Rightarrow> string \<Rightarrow> string list" where
  "split_from sep cur [] = [cur]"
| "split_from sep cur (c # cs) =
     (if sep \<noteq> [] \<and> prefix sep (c # cs)
      then cur # split_from sep [] (drop (length sep) (c # cs))
      else split_from sep (cur @ [c]) cs)"

definition str_split :: "string \<Rightarrow> string \<Rightarrow> string list" where
  "str_split sep s = split_from sep [] s"

section \<open>The concept-space extractor\<close>

text \<open>
  The conceptual space is a dictionary from strings to lists of token lists, kept in
  insertion order; it is created with the one key \<open>"all concepts"\<close>.
  \<open>append_concepts d k v\<close> is \<open>d[k].append(v)\<close>.
\<close>

type_synonym conceptual_space = "(string \<times> string list list) list"

definition append_concepts ::
    "conceptual_space \<Rightarrow> string \<Rightarrow> string list \<Rightarrow> conceptual_space" where
  "append_concepts d k v = map (\<lambda>(k', vs). if k' = k then (k', vs @ [v]) else (k', vs)) d"

definition extract_conceptual_space :: "string \<Rightarrow> conceptual_space" where
  "extract_conceptual_space text =
     foldl (\<lambda>conceptual_space match.
              append_concepts conceptual_space ''all concepts''
                (str_split '', '' (str_strip ''[]'' match)))
       [(''all concepts'', [])] (findall_brackets text)"

section \<open>JSON values and \<open>json.loads\<close>\<close>

text \<open>
  What \<open>json.loads\<close> returns: \<open>None\<close>, a \<open>bool\<close>, an \<open>int\<close>, a \<open>float\<close>, a \<open>str\<close>, a
  \<open>list\<close> or a \<open>dict\<close>. A \<open>dict\<close> keeps its keys in insertion order and holds each key
  once, so it is an association list with distinct keys. Floating point is not
  modelled: a \<open>float\<close> is represented by the literal that Python's \<open>float()\<close> is applied
  to (or by the name of the constant \<open>NaN\<close>, \<open>Infinity\<close>, \<open>-Infinity\<close>).
\<close>

datatype json =
    JNull
  | JBool bool
  | JInt int
  | JFloat string
  | JString string
  | JArray "json list"
  | JObject "(string \<times> json) list"

text \<open>
  The decoder is the recursive descent of the standard library (\<open>json.scanner\<close>,
  \<open>json.decoder\<close>), function by function. Its recursion follows the nesting of the
  input, so the model runs on fuel: \<open>Exhausted\<close> is the answer of a run whose fuel ran
  out, kept apart from the decoder's own \<open>JSONDecodeError\<close>. The fuel \<open>json_loads\<close>
  provides is shown below to be enough for every input. Limits of the interpreter
  (recursion depth, the digit limit of \<open>int()\<close>) are not part of the model.
\<close>

datatype 'a outcome = Ok 'a | JSONDecodeError | Exhausted

definition ord :: "char \<Rightarrow> nat" where
  "ord c = of_char c"

text \<open>\<open>WHITESPACE = [ \t\n\r]*\<close>\<close>

definition is_ws :: "char \<Rightarrow> bool" where
  "is_ws c = (c = CHR '' '' \<or> c = CHR 0x09 \<or> c = CHR 0x0A \<or> c = CHR 0x0D)"

definition skip_ws :: "string \<Rightarrow> string" where
  "skip_ws s = dropWhile is_ws s"

definition is_digit :: "char \<Rightarrow> bool" where
  "is_digit c = (48 \<le> ord c \<and> ord c \<le> 57)"

definition hex_value :: "char \<Rightarrow> nat option" where
  "hex_value c =
     (let n = ord c in
      if 48 \<le> n \<and> n \<le> 57 then Some (n - 48)
      else if 97 \<le> n \<and> n \<le> 102 then Some (n - 87)
      else if 65 \<le> n \<and> n \<le> 70 then Some (n - 55)
      else None)"

fun hex4 :: "string \<Rightarrow> nat option" where
  "hex4 (a # b # c # d # _) =
     (case (hex_value a, hex_value b, hex_value c, hex_value d) of
        (Some w, Some x, Some y, Some z) \<Rightarrow> Some (((w * 16 + x) * 16 + y) * 16 + z)
      | _ \<Rightarrow> None)"
| "hex4 _ = None"

text \<open>
  The escape \<open>\uXXXX\<close>, read behind the \<open>u\<close>: four hexadecimal digits, and for a high
  surrogate followed by a second escape with a low surrogate, the pair. Returns the code
  point and the number of characters read.
\<close>

definition decode_u :: "string \<Rightarrow> (nat \<times> nat) option" where
  "decode_u s =
     (case hex4 s of
        None \<Rightarrow> None
      | Some uni \<Rightarrow>
          if 0xD800 \<le> uni \<and> uni \<le> 0xDBFF \<and> take 2 (drop 4 s) = [CHR 0x5C, CHR ''u'']
          then (case hex4 (drop 6 s) of
                  None \<Rightarrow> None
                | Some uni2 \<Rightarrow>
                    if 0xDC00 \<le> uni2 \<and> uni2 \<le> 0xDFFF
                    then Some (0x10000 + (((uni - 0xD800) * 1024) + (uni2 - 0xDC00)), 10)
                    else Some (uni, 4))
          else Some (uni, 4))"

text \<open>The character \<open>chr(n)\<close> in the byte representation of strings (a lone surrogate is
  written in the same three-byte form).\<close>

definition utf8_encode :: "nat \<Rightarrow> string" where
  "utf8_encode n =
     (if n < 0x80 then [char_of n]
      else if n < 0x800 then [char_of (0xC0 + n div 64), char_of (0x80 + n mod 64)]
      else if n < 0x10000 then
        [char_of (0xE0 + n div 4096), char_of (0x80 + n div 64 mod 64), char_of (0x80 + n mod 64)]
      else
        [char_of (0xF0 + n div 262144), char_of (0x80 + n div 4096 mod 64),
         char_of (0x80 + n div 64 mod 64), char_of (0x80 + n mod 64)])"

text \<open>The table \<open>BACKSLASH\<close> of one-character escapes.\<close>

definition backslash :: "char \<Rightarrow> char option" where
  "backslash e =
     (if e = CHR 0x22 then Some (CHR 0x22)
      else if e = CHR 0x5C then Some (CHR 0x5C)
      else if e = CHR ''/'' then Some (CHR ''/'')
      else if e = CHR ''b'' then Some (CHR 0x08)
      else if e = CHR ''f'' then Some (CHR 0x0C)
      else if e = CHR ''n'' then Some (CHR 0x0A)
      else if e = CHR ''r'' then Some (CHR 0x0D)
      else if e = CHR ''t'' then Some (CHR 0x09)
      else None)"

text \<open>
  \<open>scanstring\<close> (strict mode), started behind the opening quote: the decoded string and
  the text behind the closing quote. A control character, an unknown escape and a
  missing closing quote are errors.
\<close>

fun scanstring :: "string \<Rightarrow> string \<Rightarrow> (string \<times> string) option" where
  "scanstring acc [] = None"
| "scanstring acc (c # cs) =
     (if c = CHR 0x22 then Some (acc, cs)
      else if c = CHR 0x5C then
        (case cs of
           [] \<Rightarrow> None
         | e # es \<Rightarrow>
             if e = CHR ''u'' then
               (case decode_u es of
                  None \<Rightarrow> None
                | Some (uni, used) \<Rightarrow> scanstring (acc @ utf8_encode uni) (drop used es))
             else
               (case backslash e of
                  None \<Rightarrow> None
                | Some b \<Rightarrow> scanstring (acc @ [b]) es))
      else if ord c < 0x20 then None
      else scanstring (acc @ [c]) cs)"

text \<open>
  \<open>NUMBER_RE = (-?(?:0|[1-9][0-9]*))(\.[0-9]+)?([eE][-+]?[0-9]+)?\<close>: the integer part,
  then the optional fraction and exponent. A number with neither fraction nor exponent
  is an \<open>int\<close>, any other a \<open>float\<close>.
\<close>

definition int_of_digits :: "string \<Rightarrow> int" where
  "int_of_digits ds = foldl (\<lambda>a d. 10 * a + int (ord d - 48)) 0 ds"

definition match_frac :: "string \<Rightarrow> string \<times> string" where
  "match_frac s =
     (case s of
        [] \<Rightarrow> ([], s)
      | c # t \<Rightarrow>
          if c = CHR ''.'' \<and> takeWhile is_digit t \<noteq> []
          then (c # takeWhile is_digit t, dropWhile is_digit t)
          else ([], s))"

definition match_exp :: "string \<Rightarrow> string \<times> string" where
  "match_exp s =
     (case s of
        [] \<Rightarrow> ([], s)
      | c # t \<Rightarrow>
          if c = CHR ''e'' \<or> c = CHR ''E'' then
            (let sg = (case t of [] \<Rightarrow> [] | x # _ \<Rightarrow> if x = CHR ''-'' \<or> x = CHR ''+'' then [x] else []);
                 t' = drop (length sg) t
             in if takeWhile is_digit t' \<noteq> []
                then (c # sg @ takeWhile is_digit t', dropWhile is_digit t')
                else ([], s))
          else ([], s))"

definition number_rest :: "string \<Rightarrow> string \<Rightarrow> string \<Rightarrow> json \<times> string" where
  "number_rest sg ds s =
     (case match_frac s of
        (frac, s1) \<Rightarrow>
          (case match_exp s1 of
             (ex, s2) \<Rightarrow>
               if frac = [] \<and> ex = []
               then (JInt (if sg = [] then int_of_digits ds else - int_of_digits ds), s2)
               else (JFloat (sg @ ds @ frac @ ex), s2)))"

definition match_integer :: "string \<Rightarrow> (string \<times> string) option" where
  "match_integer s =
     (case s of
        [] \<Rightarrow> None
      | d # t \<Rightarrow>
          if \<not> is_digit d then None
          else if d = CHR ''0'' then Some ([d], t)
          else Some (d # takeWhile is_digit t, dropWhile is_digit t))"

definition match_number :: "string \<Rightarrow> (json \<times> string) option" where
  "match_number s =
     (let sg = (case s of [] \<Rightarrow> [] | x # _ \<Rightarrow> if x = CHR ''-'' then [x] else [])
      in case match_integer (drop (length sg) s) of
           None \<Rightarrow> None
         | Some (ds, s1) \<Rightarrow> Some (number_rest sg ds s1))"

text \<open>\<open>dict(pairs)\<close>: a repeated key keeps its first position and takes its last value.\<close>

definition dict :: "(string \<times> json) list \<Rightarrow> (string \<times> json) list" where
  "dict pairs = foldl (\<lambda>d (k, v). AList.update k v d) [] pairs"

text \<open>
  \<open>scan_once\<close> reads one value at the head of the text and returns it with the text
  behind it. \<open>JSONObject\<close> is the loop over the members of an object, entered behind the
  opening quote of a key with the pairs read so far; \<open>JSONArray\<close> is the loop over the
  elements of an array, entered at an element with the values read so far.
\<close>

fun scan_once :: "nat \<Rightarrow> string \<Rightarrow> (json \<times> string) outcome"
  and JSONObject :: "nat \<Rightarrow> (string \<times> json) list \<Rightarrow> string \<Rightarrow> (json \<times> string) outcome"
  and JSONArray :: "nat \<Rightarrow> json list \<Rightarrow> string \<Rightarrow> (json \<times> string) outcome" where
  "scan_once 0 s = Exhausted"
| "scan_once (Suc n) [] = JSONDecodeError"
| "scan_once (Suc n) (c # cs) =
     (if c = CHR 0x22 then
        (case scanstring [] cs of
           None \<Rightarrow> JSONDecodeError
         | Some (str, rest) \<Rightarrow> Ok (JString str, rest))
      else if c = CHR ''{'' then
        (case skip_ws cs of
           [] \<Rightarrow> JSONDecodeError
         | x # rest \<Rightarrow>
             if x = CHR ''}'' then Ok (JObject [], rest)
             else if x = CHR 0x22 then JSONObject n [] rest
             else JSONDecodeError)
      else if c = CHR ''['' then
        (case skip_ws cs of
           [] \<Rightarrow> JSONDecodeError
         | x # rest \<Rightarrow>
             if x = CHR '']'' then Ok (JArray [], rest)
             else JSONArray n [] (x # rest))
      else if c = CHR ''n'' \<and> prefix ''ull'' cs then Ok (JNull, drop 3 cs)
      else if c = CHR ''t'' \<and> prefix ''rue'' cs then Ok (JBool True, drop 3 cs)
      else if c = CHR ''f'' \<and> prefix ''alse'' cs then Ok (JBool False, drop 4 cs)
      else
        (case match_number (c # cs) of
           Some (v, rest) \<Rightarrow> Ok (v, rest)
         | None \<Rightarrow>
             if c = CHR ''N'' \<and> prefix ''aN'' cs then Ok (JFloat ''NaN'', drop 2 cs)
             else if c = CHR ''I'' \<and> prefix ''nfinity'' cs then Ok (JFloat ''Infinity'', drop 7 cs)
             else if c = CHR ''-'' \<and> prefix ''Infinity'' cs then Ok (JFloat ''-Infinity'', drop 8 cs)
             else JSONDecodeError))"
| "JSONObject 0 pairs s = Exhausted"
| "JSONObject (Suc n) pairs s =
     (case scanstring [] s of
        None \<Rightarrow> JSONDecodeError
      | Some (key, s1) \<Rightarrow>
          (case skip_ws s1 of
             [] \<Rightarrow> JSONDecodeError
           | x # s2 \<Rightarrow>
               if x \<noteq> CHR '':'' then JSONDecodeError
               else
                 (case scan_once n (skip_ws s2) of
                    JSONDecodeError \<Rightarrow> JSONDecodeError
                  | Exhausted \<Rightarrow> Exhausted
                  | Ok (v, s3) \<Rightarrow>
                      (case skip_ws s3 of
                         [] \<Rightarrow> JSONDecodeError
                       | y # s4 \<Rightarrow>
                           if y = CHR ''}'' then Ok (JObject (dict (pairs @ [(key, v)])), s4)
                           else if y \<noteq> CHR '','' then JSONDecodeError
                           else
                             (case skip_ws s4 of
                                [] \<Rightarrow> JSONDecodeError
                              | z # s5 \<Rightarrow>
                                  if z = CHR 0x22 then JSONObject n (pairs @ [(key, v)]) s5
                                  else JSONDecodeError)))))"
| "JSONArray 0 vals s = Exhausted"
| "JSONArray (Suc n) vals s =
     (case scan_once n s of
        JSONDecodeError \<Rightarrow> JSONDecodeError
      | Exhausted \<Rightarrow> Exhausted
      | Ok (v, s1) \<Rightarrow>
          (case skip_ws s1 of
             [] \<Rightarrow> JSONDecodeError
           | y # s2 \<Rightarrow>
               if y = CHR '']'' then Ok (JArray (vals @ [v]), s2)
               else if y \<noteq> CHR '','' then JSONDecodeError
               else JSONArray n (vals @ [v]) (skip_ws s2)))"

text \<open>
  \<open>json.loads(s)\<close>: a byte order mark is refused, whitespace is skipped, one value is
  read, and anything but whitespace behind it is an error (\<open>Extra data\<close>).
\<close>

definition json_loads :: "string \<Rightarrow> json outcome" where
  "json_loads s =
     (if prefix [CHR 0xEF, CHR 0xBB, CHR 0xBF] s then JSONDecodeError
      else
        (case scan_once (Suc (2 * length s)) (skip_ws s) of
           JSONDecodeError \<Rightarrow> JSONDecodeError
         | Exhausted \<Rightarrow> Exhausted
         | Ok (obj, rest) \<Rightarrow> if skip_ws rest = [] then Ok obj else JSONDecodeError))"

section \<open>\<open>hashlib.md5\<close>\<close>

text \<open>The MD5 message digest (RFC 1321) on bytes, and its lower-case hexadecimal form.\<close>

definition md5_K :: "32 word list" where
  "md5_K =
    [0xd76aa478, 0xe8c7b756, 0x242070db, 0xc1bdceee, 0xf57c0faf, 0x4787c62a, 0xa8304613, 0xfd469501,
     0x698098d8, 0x8b44f7af, 0xffff5bb1, 0x895cd7be, 0x6b901122, 0xfd987193, 0xa679438e, 0x49b40821,
     0xf61e2562, 0xc040b340, 0x265e5a51, 0xe9b6c7aa, 0xd62f105d, 0x02441453, 0xd8a1e681, 0xe7d3fbc8,
     0x21e1cde6, 0xc33707d6, 0xf4d50d87, 0x455a14ed, 0xa9e3e905, 0xfcefa3f8, 0x676f02d9, 0x8d2a4c8a,
     0xfffa3942, 0x8771f681, 0x6d9d6122, 0xfde5380c, 0xa4beea44, 0x4bdecfa9, 0xf6bb4b60, 0xbebfbc70,
     0x289b7ec6, 0xeaa127fa, 0xd4ef3085, 0x04881d05, 0xd9d4d039, 0xe6db99e5, 0x1fa27cf8, 0xc4ac5665,
     0xf4292244, 0x432aff97, 0xab9423a7, 0xfc93a039, 0x655b59c3, 0x8f0ccc92, 0xffeff47d, 0x85845dd1,
     0x6fa87e4f, 0xfe2ce6e0, 0xa3014314, 0x4e0811a1, 0xf7537e82, 0xbd3af235, 0x2ad7d2bb, 0xeb86d391]"

definition md5_shifts :: "nat list" where
  "md5_shifts =
    [7, 12, 17, 22, 7, 12, 17, 22, 7, 12, 17, 22, 7, 12, 17, 22,
     5, 9, 14, 20, 5, 9, 14, 20, 5, 9, 14, 20, 5, 9, 14, 20,
     4, 11, 16, 23, 4, 11, 16, 23, 4, 11, 16, 23, 4, 11, 16, 23,
     6, 10, 15, 21, 6, 10, 15, 21, 6, 10, 15, 21, 6, 10, 15, 21]"

type_synonym md5_state = "32 word \<times> 32 word \<times> 32 word \<times> 32 word"

definition rotl32 :: "32 word \<Rightarrow> nat \<Rightarrow> 32 word" where
  "rotl32 w k = (push_bit k w) OR (drop_bit (32 - k) w)"

definition md5_step :: "32 word list \<Rightarrow> md5_state \<Rightarrow> nat \<Rightarrow> md5_state" where
  "md5_step m st i =
     (case st of (a, b, c, d) \<Rightarrow>
        let (f, g) =
              (if i < 16 then ((b AND c) OR (NOT b AND d), i)
               else if i < 32 then ((d AND b) OR (NOT d AND c), (5 * i + 1) mod 16)
               else if i < 48 then (b XOR c XOR d, (3 * i + 5) mod 16)
               else (c XOR (b OR NOT d), (7 * i) mod 16));
            f' = f + a + md5_K ! i + m ! g
        in (d, b + rotl32 f' (md5_shifts ! i), b, c))"

definition md5_block :: "md5_state \<Rightarrow> 32 word list \<Rightarrow> md5_state" where
  "md5_block st m =
     (case (st, foldl (md5_step m) st [0..<64]) of
        ((a0, b0, c0, d0), (a, b, c, d)) \<Rightarrow> (a0 + a, b0 + b, c0 + c, d0 + d))"

definition md5_pad :: "8 word list \<Rightarrow> 8 word list" where
  "md5_pad bs =
     (let n = (word_of_nat (8 * length bs) :: 64 word)
      in bs @ [0x80] @ replicate ((119 - length bs mod 64) mod 64) 0
            @ map (\<lambda>i. ucast (drop_bit (8 * i) n)) [0..<8])"

fun words_of :: "8 word list \<Rightarrow> 32 word list" where
  "words_of (a # b # c # d # bs) =
     (ucast a OR push_bit 8 (ucast b) OR push_bit 16 (ucast c) OR push_bit 24 (ucast d))
       # words_of bs"
| "words_of _ = []"

fun blocks_of :: "nat \<Rightarrow> 32 word list \<Rightarrow> 32 word list list" where
  "blocks_of 0 ws = []"
| "blocks_of (Suc n) ws = take 16 ws # blocks_of n (drop 16 ws)"

definition bytes_of :: "32 word \<Rightarrow> 8 word list" where
  "bytes_of w = map (\<lambda>i. ucast (drop_bit (8 * i) w)) [0..<4]"

definition hex_digit :: "nat \<Rightarrow> char" where
  "hex_digit n = ''0123456789abcdef'' ! n"

definition hex_byte :: "8 word \<Rightarrow> string" where
  "hex_byte b = [hex_digit (unat (drop_bit 4 b)), hex_digit (unat (b AND 0xF))]"

definition md5_digest :: "8 word list \<Rightarrow> 8 word list" where
  "md5_digest bs =
     (let ws = words_of (md5_pad bs);
          (a, b, c, d) = foldl md5_block (0x67452301, 0xefcdab89, 0x98badcfe, 0x10325476)
                           (blocks_of (length ws div 16) ws)
      in bytes_of a @ bytes_of b @ bytes_of c @ bytes_of d)"

text \<open>\<open>match.encode()\<close>: the bytes of the text.\<close>

definition encode :: "string \<Rightarrow> 8 word list" where
  "encode s = map (\<lambda>c. word_of_nat (of_char c)) s"

text \<open>\<open>hashlib.md5(match.encode()).hexdigest()\<close>\<close>

definition md5_hexdigest :: "string \<Rightarrow> string" where
  "md5_hexdigest s = concat (map hex_byte (md5_digest (encode s)))"

section \<open>The fragment extractor\<close>

text \<open>
  The exceptions that leave a function of the script: the model returns them as values.
  \<open>Diverged\<close> stands for a decoder run that did not finish.
\<close>

datatype error =
    TypeError
  | Diverged
  | FileNotFoundError
  | FileExistsError
  | NotADirectoryError
  | IsADirectoryError
  | EOFError

type_synonym pydict = "(string \<times> json) list"

text \<open>\<open>json_obj[key] = value\<close>: item assignment, which only a \<open>dict\<close> among the decoded
  values supports with a string key. The object it succeeds on is therefore a \<open>dict\<close>,
  and the list of extracted records is a list of dictionaries.\<close>

definition setitem :: "json \<Rightarrow> string \<Rightarrow> json \<Rightarrow> error + pydict" where
  "setitem obj k v =
     (case obj of
        JObject d \<Rightarrow> Inr (AList.update k v d)
      | _ \<Rightarrow> Inl TypeError)"

text \<open>
  The loop over the matches. In the \<open>try\<close> block the match is decoded, the digest of the
  raw match is stored under \<open>"chunk_id"\<close> and the object is appended to the list;
  \<open>except json.JSONDecodeError: continue\<close> goes on with the next match. Any other
  exception leaves the function.
\<close>

fun extract_loop :: "string list \<Rightarrow> pydict list \<Rightarrow> error + pydict list" where
  "extract_loop [] json_objects = Inr json_objects"
| "extract_loop (match # matches) json_objects =
     (case json_loads match of
        JSONDecodeError \<Rightarrow> extract_loop matches json_objects
      | Exhausted \<Rightarrow> Inl Diverged
      | Ok json_obj \<Rightarrow>
          (case setitem json_obj ''chunk_id'' (JString (md5_hexdigest match)) of
             Inl e \<Rightarrow> Inl e
           | Inr json_obj' \<Rightarrow> extract_loop matches (json_objects @ [json_obj'])))"

definition extract_json_from_text :: "string \<Rightarrow> error + pydict list" where
  "extract_json_from_text text = extract_loop (findall_braces text) []"

section \<open>\<open>json.dumps\<close> with \<open>indent=4\<close>\<close>

text \<open>\<open>sep.join(xs)\<close>\<close>

fun str_join :: "string \<Rightarrow> string list \<Rightarrow> string" where
  "str_join sep [] = []"
| "str_join sep [x] = x"
| "str_join sep (x # y # ys) = x @ sep @ str_join sep (y # ys)"

text \<open>
  The code points of a string, from its bytes. The texts of the script are valid UTF-8;
  a byte that starts no complete sequence is passed on as it is.
\<close>

fun utf8_decode :: "string \<Rightarrow> nat list" where
  "utf8_decode [] = []"
| "utf8_decode (c # cs) =
     (if 0xF0 \<le> ord c then
        (case cs of
           c1 # c2 # c3 # r \<Rightarrow>
             ((((ord c - 0xF0) * 64 + ord c1 mod 64) * 64 + ord c2 mod 64) * 64 + ord c3 mod 64)
               # utf8_decode r
         | _ \<Rightarrow> ord c # utf8_decode cs)
      else if 0xE0 \<le> ord c then
        (case cs of
           c1 # c2 # r \<Rightarrow>
             (((ord c - 0xE0) * 64 + ord c1 mod 64) * 64 + ord c2 mod 64) # utf8_decode r
         | _ \<Rightarrow> ord c # utf8_decode cs)
      else if 0xC0 \<le> ord c then
        (case cs of
           c1 # r \<Rightarrow> ((ord c - 0xC0) * 64 + ord c1 mod 64) # utf8_decode r
         | _ \<Rightarrow> ord c # utf8_decode cs)
      else ord c # utf8_decode cs)"

text \<open>\<open>'{0:04x}'.format(n)\<close>\<close>

definition hex4_of :: "nat \<Rightarrow> string" where
  "hex4_of n =
     [hex_digit (n div 4096 mod 16), hex_digit (n div 256 mod 16),
      hex_digit (n div 16 mod 16), hex_digit (n mod 16)]"

text \<open>
  \<open>encode_basestring_ascii\<close> (\<open>ensure_ascii\<close> is on by default): the quote, the
  backslash and the control characters with a short escape are written with it, the
  other printable ASCII characters as they are, and every other character as
  \<open>\uXXXX\<close> (as a surrogate pair above the basic plane).
\<close>

definition escape_ascii :: "nat \<Rightarrow> string" where
  "escape_ascii n =
     (if n = 0x22 then [CHR 0x5C, CHR 0x22]
      else if n = 0x5C then [CHR 0x5C, CHR 0x5C]
      else if n = 0x0A then [CHR 0x5C, CHR ''n'']
      else if n = 0x0D then [CHR 0x5C, CHR ''r'']
      else if n = 0x09 then [CHR 0x5C, CHR ''t'']
      else if n = 0x08 then [CHR 0x5C, CHR ''b'']
      else if n = 0x0C then [CHR 0x5C, CHR ''f'']
      else if 0x20 \<le> n \<and> n \<le> 0x7E then [char_of n]
      else if n < 0x10000 then [CHR 0x5C, CHR ''u''] @ hex4_of n
      else
        [CHR 0x5C, CHR ''u''] @ hex4_of (0xD800 + (n - 0x10000) div 1024 mod 1024)
          @ [CHR 0x5C, CHR ''u''] @ hex4_of (0xDC00 + (n - 0x10000) mod 1024))"

definition encode_basestring_ascii :: "string \<Rightarrow> string" where
  "encode_basestring_ascii s = [CHR 0x22] @ concat (map escape_ascii (utf8_decode s)) @ [CHR 0x22]"

text \<open>\<open>int.__repr__\<close>\<close>

fun nat_repr :: "nat \<Rightarrow> string" where
  "nat_repr n =
     (if n < 10 then [char_of (48 + n)] else nat_repr (n div 10) @ [char_of (48 + n mod 10)])"

definition int_repr :: "int \<Rightarrow> string" where
  "int_repr i = (if i < 0 then CHR ''-'' # nat_repr (nat (- i)) else nat_repr (nat i))"

definition newline_indent :: "nat \<Rightarrow> string" where
  "newline_indent level = CHR 0x0A # replicate (4 * level) (CHR '' '')"

text \<open>
  The encoder at nesting level \<open>level\<close>. An empty list or dictionary is written as
  \<open>[]\<close> or \<open>{}\<close>; the items of any other are written one per line, four spaces deeper,
  separated by a comma, a key and its value by a colon and a space. \<open>float_repr\<close> is the
  text written for a float, given the literal it was read from.
\<close>

fun iterencode :: "(string \<Rightarrow> string) \<Rightarrow> nat \<Rightarrow> json \<Rightarrow> string" where
  "iterencode float_repr level JNull = ''null''"
| "iterencode float_repr level (JBool b) = (if b then ''true'' else ''false'')"
| "iterencode float_repr level (JInt i) = int_repr i"
| "iterencode float_repr level (JFloat lit) = float_repr lit"
| "iterencode float_repr level (JString s) = encode_basestring_ascii s"
| "iterencode float_repr level (JArray vs) =
     (if vs = [] then ''[]''
      else ''['' @ newline_indent (Suc level)
           @ str_join ('','' @ newline_indent (Suc level))
               (map (iterencode float_repr (Suc level)) vs)
           @ newline_indent level @ '']'')"
| "iterencode float_repr level (JObject d) =
     (if d = [] then ''{}''
      else ''{'' @ newline_indent (Suc level)
           @ str_join ('','' @ newline_indent (Suc level))
               (map (\<lambda>kv. encode_basestring_ascii (fst kv) @ '': ''
                       @ iterencode float_repr (Suc level) (snd kv)) d)
           @ newline_indent level @ ''}'')"

definition json_dumps :: "(string \<Rightarrow> string) \<Rightarrow> json \<Rightarrow> string" where
  "json_dumps float_repr obj = iterencode float_repr 0 obj"

section \<open>Library text that is not modelled\<close>

text \<open>
  Three renderings depend on floating point or on the versions of pandas and of the
  \<open>csv\<close> module, and are parameters of the model: the text \<open>json.dumps\<close> writes for a
  float (given the literal it was read from), the text pandas writes for a cell (given
  the values of the cell's column, which decide the column's type; a missing value is
  \<open>None\<close>), and the quoting the \<open>csv\<close> writer applies to a field.
\<close>

record renderers =
  float_repr :: "string \<Rightarrow> string"
  cell_text :: "json option list \<Rightarrow> json option \<Rightarrow> string"
  csv_field :: "string \<Rightarrow> string"

section \<open>\<open>pandas.DataFrame\<close> and \<open>to_csv\<close>\<close>

text \<open>
  \<open>pd.DataFrame(json_objects)\<close> for a list of dictionaries: the columns are the keys of
  the records in the order of their first appearance, and a record has no value
  (\<open>None\<close> here, \<open>NaN\<close> in pandas) in the columns of the keys it lacks.
\<close>

record dataframe =
  columns :: "string list"
  rows :: "json option list list"

definition add_column :: "string list \<Rightarrow> string \<Rightarrow> string list" where
  "add_column cols k = (if k \<in> set cols then cols else cols @ [k])"

definition union_keys :: "pydict list \<Rightarrow> string list" where
  "union_keys records = foldl add_column [] (concat (map (map fst) records))"

definition DataFrame :: "pydict list \<Rightarrow> dataframe" where
  "DataFrame records =
     \<lparr>columns = union_keys records,
      rows = map (\<lambda>d. map (map_of d) (union_keys records)) records\<rparr>"

text \<open>
  \<open>df.to_csv(path, sep='|', index=False)\<close>: the header line with the column names, then
  one line per row, the fields of a line separated by \<open>|\<close> and every line ended by the
  line terminator (\<open>os.linesep\<close>, a line feed on POSIX).
\<close>

definition csv_line :: "renderers \<Rightarrow> string list \<Rightarrow> string" where
  "csv_line R cells = str_join ''|'' (map (csv_field R) cells) @ [CHR 0x0A]"

definition cell_texts :: "renderers \<Rightarrow> dataframe \<Rightarrow> string list list" where
  "cell_texts R df =
     map (\<lambda>row. map (\<lambda>j. cell_text R (map (\<lambda>r. r ! j) (rows df)) (row ! j))
                  [0..<length (columns df)])
       (rows df)"

definition to_csv :: "renderers \<Rightarrow> dataframe \<Rightarrow> string" where
  "to_csv R df = concat (map (csv_line R) (columns df # cell_texts R df))"

section \<open>Files and the console\<close>

text \<open>
  A path is the list of its components. The world of the script is the files with their
  contents, the directories, and the lines printed so far.
\<close>

type_synonym path = "string list"

record world =
  files :: "path \<rightharpoonup> string"
  dirs :: "path set"
  stdout :: "string list"

text \<open>A step of the script either raises, leaving the world as it is at that moment, or
  returns the next world.\<close>

type_synonym step = "(error \<times> world) + world"

definition path_str :: "path \<Rightarrow> string" where
  "path_str p = str_join ''/'' p"

definition print :: "world \<Rightarrow> string \<Rightarrow> world" where
  "print w line = w\<lparr>stdout := stdout w @ [line]\<rparr>"

text \<open>\<open>open(p, 'r').read()\<close>\<close>

definition read_file :: "world \<Rightarrow> path \<Rightarrow> error + string" where
  "read_file w p =
     (if p \<in> dirs w then Inl IsADirectoryError
      else case files w p of None \<Rightarrow> Inl FileNotFoundError | Some text \<Rightarrow> Inr text)"

text \<open>
  \<open>p.mkdir(parents=True, exist_ok=True)\<close>: the directory and its missing parents are
  created, an existing directory is accepted, and a file in the way is an error.
\<close>

definition mkdir :: "world \<Rightarrow> path \<Rightarrow> error + world" where
  "mkdir w p =
     (if files w p \<noteq> None then Inl FileExistsError
      else if list_ex (\<lambda>q. files w q \<noteq> None) (prefixes p) then Inl NotADirectoryError
      else Inr (w\<lparr>dirs := dirs w \<union> set (prefixes p)\<rparr>))"

text \<open>\<open>with open(p, 'w') as f: f.write(text)\<close>: the file is created or replaced.\<close>

definition write_file :: "world \<Rightarrow> path \<Rightarrow> string \<Rightarrow> error + world" where
  "write_file w p text =
     (if p \<in> dirs w then Inl IsADirectoryError
      else if butlast p \<notin> dirs w then Inl FileNotFoundError
      else Inr (w\<lparr>files := (files w)(p \<mapsto> text)\<rparr>))"

section \<open>The output writer\<close>

text \<open>The conceptual space as the value \<open>json.dump\<close> receives.\<close>

definition concept_json :: "conceptual_space \<Rightarrow> json" where
  "concept_json cs =
     JObject (map (\<lambda>(k, lists). (k, JArray (map (\<lambda>l. JArray (map JString l)) lists))) cs)"

text \<open>The \<open>if json_objects: ... else: ...\<close> block of \<open>main\<close>.\<close>

definition save_csv :: "renderers \<Rightarrow> pydict list \<Rightarrow> path \<Rightarrow> world \<Rightarrow> step" where
  "save_csv R json_objects output_directory w =
     (if json_objects \<noteq> [] then
        (let df = DataFrame json_objects;
             csv_output_file = output_directory @ [''graph.csv'']
         in case write_file w csv_output_file (to_csv R df) of
              Inl e \<Rightarrow> Inl (e, w)
            | Inr w' \<Rightarrow> Inr (print w' (''CSV data has been saved to '' @ path_str csv_output_file)))
      else Inr (print w ''No valid JSON objects found to save to CSV.''))"

definition main :: "renderers \<Rightarrow> path \<Rightarrow> path \<Rightarrow> world \<Rightarrow> step" where
  "main R input_file output_directory w =
     (case read_file w input_file of
        Inl e \<Rightarrow> Inl (e, w)
      | Inr input_text \<Rightarrow>
      case extract_json_from_text input_text of
        Inl e \<Rightarrow> Inl (e, w)
      | Inr json_objects \<Rightarrow>
      let conceptual_space = extract_conceptual_space input_text;
          final_json = json_dumps (float_repr R) (JArray (map JObject json_objects))
      in
      case mkdir w output_directory of
        Inl e \<Rightarrow> Inl (e, w)
      | Inr w1 \<Rightarrow>
      let json_output_file = output_directory @ [''cleaned_data.json'']
      in
      case write_file w1 json_output_file final_json of
        Inl e \<Rightarrow> Inl (e, w1)
      | Inr w2 \<Rightarrow>
      case save_csv R json_objects output_directory
             (print w2 (''Cleaned JSON data has been saved to '' @ path_str json_output_file)) of
        Inl ew \<Rightarrow> Inl ew
      | Inr w3 \<Rightarrow>
      let conceptual_space_file = output_directory @ [''conceptual_space.json'']
      in
      case write_file w3 conceptual_space_file
             (json_dumps (float_repr R) (concept_json conceptual_space)) of
        Inl e \<Rightarrow> Inl (e, w3)
      | Inr w4 \<Rightarrow>
          Inr (print w4 (''Conceptual space data has been saved to ''
                          @ path_str conceptual_space_file)))"

section \<open>The command line\<close>

text \<open>
  What happens at the prompt: a line is entered before the alarm goes off, or the alarm
  raises \<open>TimeoutExpired\<close> first, or the input is at its end (\<open>input()\<close> raises
  \<open>EOFError\<close>, which the script does not catch).
\<close>

datatype prompt = Entered string | TimedOut | EndOfInput

definition script :: "renderers \<Rightarrow> path \<Rightarrow> path \<Rightarrow> prompt \<Rightarrow> world \<Rightarrow> step" where
  "script R input_file output_directory answer w =
     (let w1 = print w ''Please enter the output filename (default is 'clean_json'):''
      in case answer of
           Entered line \<Rightarrow>
             (let output_filename = line in main R input_file output_directory w1)
         | TimedOut \<Rightarrow>
             (let output_filename = ''clean_json'';
                  w2 = print w1 (CHR 0x0A # ''Timeout reached, using default output filename 'clean_json'.'')
              in main R input_file output_directory w2)
         | EndOfInput \<Rightarrow> Inl (EOFError, w1))"

section \<open>Invariants of the decoder\<close>




section \<open>The decoder terminates\<close>
















section \<open>Properties of the scanner and the string methods\<close>

lemma scan_open_skip: "a \<notin> set pre \<Longrightarrow> scan_open a b (pre @ s) = scan_open a b s"
  by (induction pre) auto

lemma scan_close_take:
  "b \<notin> set body \<Longrightarrow> scan_close a b acc (body @ b # s) = (acc @ body @ [b]) # scan_open a b s"
  by (induction body arbitrary: acc) auto

text \<open>Every match runs from an opening delimiter to the first closing delimiter behind it.\<close>

lemma scan_shape:
  "\<forall>m \<in> set (scan_open a b s). \<exists>body. m = a # body @ [b] \<and> b \<notin> set body"
  "b \<notin> set (tl acc) \<and> acc \<noteq> [] \<and> hd acc = a \<longrightarrow>
     (\<forall>m \<in> set (scan_close a b acc s). \<exists>body. m = a # body @ [b] \<and> b \<notin> set body)"
proof (induction a b s and a b acc s rule: scan_open_scan_close.induct)
  case (1 a b)
  then show ?case by simp
next
  case (2 a b c cs)
  then show ?case by simp
next
  case (3 a b acc)
  then show ?case by simp
next
  case (4 a b acc c cs)
  show ?case
  proof (intro impI)
    assume h: "b \<notin> set (tl acc) \<and> acc \<noteq> [] \<and> hd acc = a"
    then obtain t where acc: "acc = a # t" "b \<notin> set t" by (cases acc) auto
    show "\<forall>m\<in>set (scan_close a b acc (c # cs)). \<exists>body. m = a # body @ [b] \<and> b \<notin> set body"
    proof (cases "c = b")
      case True
      then show ?thesis using 4(1) acc by auto
    next
      case False
      then show ?thesis using 4(2) acc by auto
    qed
  qed
qed

lemma dropWhile_all: "(\<forall>x \<in> set xs. P x) \<Longrightarrow> dropWhile P (xs @ ys) = dropWhile P ys"
  by (induction xs) simp_all

text \<open>Stripping a span whose two ends are strip characters strips its interior as well.\<close>

lemma str_strip_surround:
  assumes "a \<in> set chars" "b \<in> set chars"
  shows "str_strip chars (a # body @ [b]) = str_strip chars body"
proof (cases "\<forall>x \<in> set body. x \<in> set chars")
  case True
  then have e: "dropWhile (\<lambda>c. c \<in> set chars) (body @ [b]) = []"
      "dropWhile (\<lambda>c. c \<in> set chars) body = []"
    using assms by (simp_all add: dropWhile_all)
  have "str_strip chars (a # body @ [b]) = []"
    unfolding str_strip_def using assms e(1) by simp
  moreover have "str_strip chars body = []"
    unfolding str_strip_def e(2) by simp
  ultimately show ?thesis by simp
next
  case False
  have "dropWhile (\<lambda>c. c \<in> set chars) (body @ [b]) = dropWhile (\<lambda>c. c \<in> set chars) body @ [b]"
    using False by (auto simp: dropWhile_append1)
  then show ?thesis using assms by (simp add: str_strip_def)
qed

lemma split_from_no_sep:
  "\<not> sublist sep s \<Longrightarrow> split_from sep cur s = [cur @ s]"
proof (induction s arbitrary: cur)
  case Nil
  then show ?case by simp
next
  case (Cons c cs)
  have np: "\<not> prefix sep (c # cs)"
    using Cons.prems by (meson prefix_imp_sublist)
  have ns: "\<not> sublist sep cs"
    using Cons.prems by (meson sublist_Cons_right)
  show ?case using np Cons.IH[OF ns] by simp
qed

lemma split_from_nonempty: "split_from sep cur s \<noteq> []"
  by (induction sep cur s rule: split_from.induct) simp_all

lemma split_from_sep_len:
  "sep \<noteq> [] \<Longrightarrow> sublist sep s \<Longrightarrow> 2 \<le> length (split_from sep cur s)"
proof (induction sep cur s rule: split_from.induct)
  case (1 sep cur)
  then show ?case by simp
next
  case (2 sep cur c cs)
  show ?case
  proof (cases "prefix sep (c # cs)")
    case True
    have "1 \<le> length (split_from sep [] (drop (length sep) (c # cs)))"
      using split_from_nonempty[of sep "[]" "drop (length sep) (c # cs)"]
      by (cases "split_from sep [] (drop (length sep) (c # cs))") simp_all
    then show ?thesis using True 2(3) by simp
  next
    case False
    then have "sublist sep cs" using 2(4) by (simp add: sublist_Cons_right)
    then show ?thesis using False 2(2)[OF _ 2(3)] by simp
  qed
qed

lemma foldl_append_concepts:
  "foldl (\<lambda>d m. append_concepts d k (f m)) [(k, vs)] ms = [(k, vs @ map f ms)]"
  by (induction ms arbitrary: vs) (simp_all add: append_concepts_def)

lemma extract_conceptual_space_eq:
  "extract_conceptual_space text =
     [(''all concepts'',
       map (\<lambda>m. str_split '', '' (str_strip ''[]'' m)) (findall_brackets text))]"
  unfolding extract_conceptual_space_def
  using foldl_append_concepts[of "''all concepts''"
      "\<lambda>m. str_split '', '' (str_strip ''[]'' m)" "[]" "findall_brackets text"]
  by simp

section \<open>Properties of the fragment extractor\<close>

lemma findall_braces_shape:
  "m \<in> set (findall_braces s) \<Longrightarrow> \<exists>body. m = CHR ''{'' # body @ ''}'' \<and> CHR ''}'' \<notin> set body"
  using scan_shape(1)[of "CHR ''{''" "CHR ''}''" s] by (auto simp: findall_braces_def)

lemma dict_distinct_aux:
  "distinct (map fst d) \<Longrightarrow>
     distinct (map fst (foldl (\<lambda>d (k, v). AList.update k v d) d ps))"
  by (induction ps arbitrary: d) (auto simp: distinct_update)

lemma dict_distinct: "distinct (map fst (dict ps))"
  unfolding dict_def by (rule dict_distinct_aux) simp

lemma JSONObject_distinct:
  "JSONObject n p s = Ok (v, r) \<Longrightarrow> \<exists>d. v = JObject d \<and> distinct (map fst d)"
proof (induction n arbitrary: p s)
  case 0
  then show ?case by simp
next
  case (Suc n)
  then show ?case
    by (auto split: option.splits list.splits if_splits outcome.splits simp: dict_distinct)
qed

lemma json_loads_brace_distinct:
  assumes "json_loads (CHR ''{'' # cs) = Ok v"
  shows "\<exists>d. v = JObject d \<and> distinct (map fst d)"
proof -
  have nb: "\<not> prefix [CHR 0xEF, CHR 0xBB, CHR 0xBF] (CHR ''{'' # cs)" by simp
  have sk: "skip_ws (CHR ''{'' # cs) = CHR ''{'' # cs" by (simp add: skip_ws_def is_ws_def)
  from assms obtain rest where
    so: "scan_once (Suc (2 * length (CHR ''{'' # cs))) (CHR ''{'' # cs) = Ok (v, rest)"
    unfolding json_loads_def sk using nb
    by (auto split: outcome.splits if_splits)
  then show ?thesis
    by (auto simp del: JSONObject.simps split: list.splits if_splits dest: JSONObject_distinct)
qed



lemma findall_braces_embedded:
  assumes "\<forall>(gap, body, d) \<in> set parts. CHR ''{'' \<notin> set gap \<and> CHR ''}'' \<notin> set body"
  shows "findall_braces (concat (map (\<lambda>(gap, body, d). gap @ CHR ''{'' # body @ ''}'') parts) @ tail)
         = map (\<lambda>(gap, body, d). CHR ''{'' # body @ ''}'') parts @ findall_braces tail"
  using assms
proof (induction parts)
  case Nil
  then show ?case by simp
next
  case (Cons p parts)
  obtain gap body d where p: "p = (gap, body, d)" by (cases p)
  have g: "CHR ''{'' \<notin> set gap" and b: "CHR ''}'' \<notin> set body"
    using Cons.prems p by simp_all
  let ?rest = "concat (map (\<lambda>(gap, body, d). gap @ CHR ''{'' # body @ ''}'') parts) @ tail"
  have "scan_open (CHR ''{'') (CHR ''}'') (gap @ CHR ''{'' # body @ CHR ''}'' # ?rest)
        = (CHR ''{'' # body @ ''}'') # scan_open (CHR ''{'') (CHR ''}'') ?rest"
    using scan_open_skip[OF g, of "CHR ''}''" "CHR ''{'' # body @ CHR ''}'' # ?rest"]
      scan_close_take[OF b, of "CHR ''{''" "''{''" ?rest]
    by simp
  then show ?case
    using Cons.IH Cons.prems by (simp add: p findall_braces_def)
qed

lemma findall_braces_none: "CHR ''{'' \<notin> set s \<Longrightarrow> findall_braces s = []"
  using scan_open_skip[of "CHR ''{''" s "CHR ''}''" "[]"] by (simp add: findall_braces_def)

lemma extract_loop_all_ok:
  assumes "\<forall>(gap, body, d) \<in> set parts. json_loads (CHR ''{'' # body @ ''}'') = Ok (JObject d)"
  shows "extract_loop (map (\<lambda>(gap, body, d). CHR ''{'' # body @ ''}'') parts) acc
         = Inr (acc @ map (\<lambda>(gap, body, d).
              AList.update ''chunk_id''
                (JString (md5_hexdigest (CHR ''{'' # body @ ''}''))) d) parts)"
  using assms
proof (induction parts arbitrary: acc)
  case Nil
  then show ?case by simp
next
  case (Cons p parts)
  obtain gap body d where p: "p = (gap, body, d)" by (cases p)
  have l: "json_loads (CHR ''{'' # body @ ''}'') = Ok (JObject d)"
    using Cons.prems p by simp
  have r: "\<forall>(gap, body, d) \<in> set parts. json_loads (CHR ''{'' # body @ ''}'') = Ok (JObject d)"
    using Cons.prems by simp
  show ?case
    using l Cons.IH[OF r] by (simp add: p setitem_def)
qed

lemma extract_loop_records:
  assumes "extract_loop ms acc = Inr rs" and "r \<in> set rs"
  shows "r \<in> set acc \<or> (\<exists>m obj. m \<in> set ms \<and> json_loads m = Ok obj
           \<and> setitem obj ''chunk_id'' (JString (md5_hexdigest m)) = Inr r)"
  using assms
proof (induction ms arbitrary: acc)
  case Nil
  then show ?case by simp
next
  case (Cons m ms)
  show ?case
  proof (cases "json_loads m")
    case (Ok obj)
    then obtain r' where r': "setitem obj ''chunk_id'' (JString (md5_hexdigest m)) = Inr r'"
      and l: "extract_loop ms (acc @ [r']) = Inr rs"
      using Cons.prems(1) by (auto split: sum.splits)
    from Cons.IH[OF l Cons.prems(2)] show ?thesis
      using Ok r' by auto
  next
    case JSONDecodeError
    then have "extract_loop ms acc = Inr rs" using Cons.prems(1) by simp
    from Cons.IH[OF this Cons.prems(2)] show ?thesis by auto
  next
    case Exhausted
    then show ?thesis using Cons.prems(1) by simp
  qed
qed

section \<open>The concept-space extractor: claims\<close>

text \<open>
  C4. For every text the conceptual space has the single key \<open>"all concepts"\<close>, holding
  one token list per bracketed span, in the order of the spans: the span with its
  brackets stripped, split at \<open>", "\<close>. A span runs from an opening bracket to the first
  closing bracket behind it, and \<open>strip('[]')\<close> removes the two surrounding brackets
  together with any further bracket character at either end of the interior. In
  particular a text with \<open>[a, b, c]\<close> behind a bracket-free prefix yields the tokens
  \<open>a\<close>, \<open>b\<close>, \<open>c\<close> first.
\<close>

theorem extract_conceptual_space_spans:
  "extract_conceptual_space text =
     [(''all concepts'',
       map (\<lambda>m. str_split '', '' (str_strip ''[]'' m)) (findall_brackets text))]
   \<and> (\<forall>m \<in> set (findall_brackets text).
         \<exists>body. m = CHR ''['' # body @ '']'' \<and> CHR '']'' \<notin> set body
           \<and> str_strip ''[]'' m = str_strip ''[]'' body)
   \<and> (CHR ''['' \<notin> set pre \<longrightarrow>
         extract_conceptual_space (pre @ ''[a, b, c]'' @ post) =
           [(''all concepts'',
             [''a'', ''b'', ''c'']
               # map (\<lambda>m. str_split '', '' (str_strip ''[]'' m)) (findall_brackets post))])"
proof (intro conjI ballI impI)
  show "extract_conceptual_space text =
     [(''all concepts'',
       map (\<lambda>m. str_split '', '' (str_strip ''[]'' m)) (findall_brackets text))]"
    by (rule extract_conceptual_space_eq)
next
  fix m assume "m \<in> set (findall_brackets text)"
  then obtain body where b: "m = CHR ''['' # body @ '']''" "CHR '']'' \<notin> set body"
    using scan_shape(1)[of "CHR ''[''" "CHR '']''" "text"] by (auto simp: findall_brackets_def)
  have "str_strip ''[]'' m = str_strip ''[]'' body"
    unfolding b(1) by (rule str_strip_surround) simp_all
  with b show "\<exists>body. m = CHR ''['' # body @ '']'' \<and> CHR '']'' \<notin> set body
           \<and> str_strip ''[]'' m = str_strip ''[]'' body"
    by blast
next
  assume pre: "CHR ''['' \<notin> set pre"
  have "findall_brackets (pre @ ''[a, b, c]'' @ post) = ''[a, b, c]'' # findall_brackets post"
    unfolding findall_brackets_def scan_open_skip[OF pre]
    using scan_close_take[of "CHR '']''" "''a, b, c''" "CHR ''[''" "''[''" post]
    by simp
  moreover have "str_split '', '' (str_strip ''[]'' ''[a, b, c]'') = [''a'', ''b'', ''c'']"
    by (simp add: str_split_def str_strip_def)
  ultimately show "extract_conceptual_space (pre @ ''[a, b, c]'' @ post) =
           [(''all concepts'',
             [''a'', ''b'', ''c'']
               # map (\<lambda>m. str_split '', '' (str_strip ''[]'' m)) (findall_brackets post))]"
    by (simp add: extract_conceptual_space_eq)
qed

theorem extract_conceptual_space_spans_witness:
  "extract_conceptual_space ''see [a, b, c] and [d]'' =
     [(''all concepts'', [[''a'', ''b'', ''c''], [''d'']])]
   \<and> ''[d]'' \<in> set (findall_brackets ''see [a, b, c] and [d]'')
   \<and> (\<exists>body. ''[d]'' = CHR ''['' # body @ '']'' \<and> CHR '']'' \<notin> set body
         \<and> str_strip ''[]'' ''[d]'' = str_strip ''[]'' body)"
proof -
  note t = extract_conceptual_space_spans[of "''see [a, b, c] and [d]''"
      "''see ''" "'' and [d]''"]
  have pre: "CHR ''['' \<notin> set ''see ''" by simp
  have post: "map (\<lambda>m. str_split '', '' (str_strip ''[]'' m)) (findall_brackets '' and [d]'')
      = [[''d'']]"
    by (simp add: findall_brackets_def str_split_def str_strip_def)
  have "extract_conceptual_space (''see '' @ ''[a, b, c]'' @ '' and [d]'') =
     [(''all concepts'', [[''a'', ''b'', ''c''], [''d'']])]"
    using t[THEN conjunct2, THEN conjunct2] pre unfolding post by blast
  moreover have m: "''[d]'' \<in> set (findall_brackets ''see [a, b, c] and [d]'')"
    by (simp add: findall_brackets_def)
  moreover have "\<exists>body. ''[d]'' = CHR ''['' # body @ '']'' \<and> CHR '']'' \<notin> set body
         \<and> str_strip ''[]'' ''[d]'' = str_strip ''[]'' body"
    using t[THEN conjunct2, THEN conjunct1] m by blast
  ultimately show ?thesis by simp
qed

text \<open>
  C10. The span is split only at the exact two-character separator comma-space: a span
  is returned as a single token exactly when \<open>", "\<close> does not occur in it. So \<open>[a,b,c]\<close>
  yields the one token \<open>a,b,c\<close>, and the empty span \<open>[]\<close> yields the one empty token.
\<close>

theorem split_only_on_comma_space:
  "extract_conceptual_space ''[a,b,c]'' = [(''all concepts'', [[''a,b,c'']])]
   \<and> extract_conceptual_space ''[]'' = [(''all concepts'', [['''']])]
   \<and> (str_split '', '' s = [s]) = (\<not> sublist '', '' s)"
proof (intro conjI)
  show "extract_conceptual_space ''[a,b,c]'' = [(''all concepts'', [[''a,b,c'']])]"
    by (simp add: extract_conceptual_space_def findall_brackets_def str_split_def
        str_strip_def append_concepts_def)
  show "extract_conceptual_space ''[]'' = [(''all concepts'', [['''']])]"
    by (simp add: extract_conceptual_space_def findall_brackets_def str_split_def
        str_strip_def append_concepts_def)
  show "(str_split '', '' s = [s]) = (\<not> sublist '', '' s)"
  proof
    assume one: "str_split '', '' s = [s]"
    show "\<not> sublist '', '' s"
    proof
      assume "sublist '', '' s"
      then have "2 \<le> length (split_from '', '' [] s)"
        by (intro split_from_sep_len) simp_all
      with one show False by (simp add: str_split_def)
    qed
  next
    assume "\<not> sublist '', '' s"
    then show "str_split '', '' s = [s]"
      by (simp add: str_split_def split_from_no_sep)
  qed
qed

section \<open>The fragment extractor: claims\<close>


text \<open>
  C3. The text \<open>{"a": {"b": 1}}\<close> is a JSON object with a nested object. The lazy
  pattern stops at the first closing brace, so the only match is the truncated
  \<open>{"a": {"b": 1}\<close>, which does not decode: nothing is extracted.
\<close>

theorem nested_object_not_extracted:
  \<open>json_loads ''{"a": {"b": 1}}'' = Ok (JObject [(''a'', JObject [(''b'', JInt 1)])])
   \<and> findall_braces ''{"a": {"b": 1}}'' = [''{"a": {"b": 1}'']
   \<and> json_loads ''{"a": {"b": 1}'' = JSONDecodeError
   \<and> extract_json_from_text ''{"a": {"b": 1}}'' = Inr []\<close>
  by code_simp

text \<open>
  C9. Every record the extractor returns is a dictionary made from a brace span of the
  text: under the key \<open>chunk_id\<close> it holds the MD5 hex digest of the span, every other
  key holds what the decoded object held, and no key occurs twice, so a \<open>chunk_id\<close> of
  the embedded object itself is replaced by the digest.
\<close>

theorem chunk_id_is_digest:
  assumes "extract_json_from_text text = Inr rs" and "r \<in> set rs"
  shows "\<exists>m d0. m \<in> set (findall_braces text) \<and> json_loads m = Ok (JObject d0)
           \<and> map_of r ''chunk_id'' = Some (JString (md5_hexdigest m))
           \<and> distinct (map fst r)
           \<and> (\<forall>k. k \<noteq> ''chunk_id'' \<longrightarrow> map_of r k = map_of d0 k)"
proof -
  from extract_loop_records[OF assms[unfolded extract_json_from_text_def]]
  obtain m obj where m: "m \<in> set (findall_braces text)" "json_loads m = Ok obj"
    "setitem obj ''chunk_id'' (JString (md5_hexdigest m)) = Inr r"
    by auto
  obtain cs where cs: "m = CHR ''{'' # cs" using findall_braces_shape[OF m(1)] by auto
  obtain d0 where d0: "obj = JObject d0" "distinct (map fst d0)"
    using json_loads_brace_distinct m(2) cs by blast
  let ?d = "AList.update ''chunk_id'' (JString (md5_hexdigest m)) d0"
  have "r = ?d" using m(3) d0 by (simp add: setitem_def)
  moreover have "map_of ?d ''chunk_id'' = Some (JString (md5_hexdigest m))"
    by (simp add: update_conv')
  moreover have "distinct (map fst ?d)" using d0(2) by (simp add: distinct_update)
  moreover have "\<forall>k. k \<noteq> ''chunk_id'' \<longrightarrow> map_of ?d k = map_of d0 k"
    by (simp add: update_conv')
  ultimately show ?thesis using m(1,2) d0(1) by blast
qed

theorem chunk_id_is_digest_witness:
  \<open>extract_json_from_text ''{"chunk_id": "mine", "a": 1}'' =
     Inr [[(''chunk_id'', JString ''abc1f7c224d9b2defecd04d306e3e576''), (''a'', JInt 1)]]
   \<and> json_loads ''{"chunk_id": "mine", "a": 1}'' =
       Ok (JObject [(''chunk_id'', JString ''mine''), (''a'', JInt 1)])
   \<and> (\<exists>m d0. m \<in> set (findall_braces ''{"chunk_id": "mine", "a": 1}'')
         \<and> json_loads m = Ok (JObject d0)
         \<and> map_of [(''chunk_id'', JString ''abc1f7c224d9b2defecd04d306e3e576''), (''a'', JInt 1)]
               ''chunk_id'' = Some (JString (md5_hexdigest m)))\<close>
proof -
  have e: \<open>extract_json_from_text ''{"chunk_id": "mine", "a": 1}'' =
     Inr [[(''chunk_id'', JString ''abc1f7c224d9b2defecd04d306e3e576''), (''a'', JInt 1)]]\<close>
    by code_simp
  have l: \<open>json_loads ''{"chunk_id": "mine", "a": 1}'' =
       Ok (JObject [(''chunk_id'', JString ''mine''), (''a'', JInt 1)])\<close>
    by code_simp
  show ?thesis
    using e l chunk_id_is_digest[OF e, of
        "[(''chunk_id'', JString ''abc1f7c224d9b2defecd04d306e3e576''), (''a'', JInt 1)]"]
    by auto
qed

text \<open>
  C1, as stated, fails: \<open>{"a": "}"}\<close> is a well-formed flat JSON object, but its string
  holds a closing brace, the match stops there, and nothing is extracted.
\<close>

theorem flat_object_with_brace_in_string_lost:
  \<open>json_loads ''{"a": "}"}'' = Ok (JObject [(''a'', JString ''}'')])
   \<and> extract_json_from_text ''{"a": "}"}'' = Inr []\<close>
  by code_simp

text \<open>
  C1, amended. Let the text consist of JSON objects, each preceded by text without an
  opening brace and followed in the end by text without an opening brace, where each
  object decodes and has no closing brace before its last character (so it has no nested
  object and no closing brace inside a string). Then the extractor returns exactly one
  record per object, in the order of the text: the decoded object with \<open>chunk_id\<close> set to
  the MD5 hex digest of the object's raw text.
\<close>

theorem embedded_objects_extracted:
  assumes "\<forall>(gap, body, d) \<in> set parts.
             CHR ''{'' \<notin> set gap \<and> CHR ''}'' \<notin> set body
             \<and> json_loads (CHR ''{'' # body @ ''}'') = Ok (JObject d)"
    and "CHR ''{'' \<notin> set tail"
  shows "extract_json_from_text
           (concat (map (\<lambda>(gap, body, d). gap @ CHR ''{'' # body @ ''}'') parts) @ tail)
         = Inr (map (\<lambda>(gap, body, d).
              AList.update ''chunk_id''
                (JString (md5_hexdigest (CHR ''{'' # body @ ''}''))) d) parts)"
proof -
  have a: "\<forall>(gap, body, d) \<in> set parts. CHR ''{'' \<notin> set gap \<and> CHR ''}'' \<notin> set body"
    using assms(1) by fast
  have b: "\<forall>(gap, body, d) \<in> set parts. json_loads (CHR ''{'' # body @ ''}'') = Ok (JObject d)"
    using assms(1) by fast
  show ?thesis
    unfolding extract_json_from_text_def findall_braces_embedded[OF a]
      findall_braces_none[OF assms(2)]
    using extract_loop_all_ok[OF b, of "[]"] by simp
qed

theorem embedded_objects_extracted_witness:
  \<open>extract_json_from_text ''x {"a": 1} and {"b": "{"} end }'' =
     Inr [[(''a'', JInt 1), (''chunk_id'', JString ''42b7b4f2921788ea14dac5566e6f06d0'')],
          [(''b'', JString ''{''), (''chunk_id'', JString ''9507aa4e5f4f31b8c359fc1f81ae5bfd'')]]\<close>
proof -
  let ?parts = \<open>[(''x '', ''"a": 1'', [(''a'', JInt 1)]),
                 ('' and '', ''"b": "{"'', [(''b'', JString ''{'')])]\<close>
  have l1: \<open>json_loads ''{"a": 1}'' = Ok (JObject [(''a'', JInt 1)])\<close> by code_simp
  have l2: \<open>json_loads ''{"b": "{"}'' = Ok (JObject [(''b'', JString ''{'')])\<close> by code_simp
  have m1: \<open>md5_hexdigest ''{"a": 1}'' = ''42b7b4f2921788ea14dac5566e6f06d0''\<close> by code_simp
  have m2: \<open>md5_hexdigest ''{"b": "{"}'' = ''9507aa4e5f4f31b8c359fc1f81ae5bfd''\<close> by code_simp
  have h1: "\<forall>(gap, body, d) \<in> set ?parts.
             CHR ''{'' \<notin> set gap \<and> CHR ''}'' \<notin> set body
             \<and> json_loads (CHR ''{'' # body @ ''}'') = Ok (JObject d)"
    using l1 l2 by simp
  have h2: "CHR ''{'' \<notin> set '' end }''" by simp
  show ?thesis
    using embedded_objects_extracted[OF h1 h2] m1 m2 by simp
qed

section \<open>Properties of the output writer\<close>

lemma not_prefix_child: "output_directory @ [name] \<notin> set (prefixes output_directory)"
  by (auto simp: in_set_prefixes dest: prefix_length_le)

lemma mkdir_ok:
  "\<forall>q \<in> set (prefixes p). files w q = None \<Longrightarrow>
     mkdir w p = Inr (w\<lparr>dirs := dirs w \<union> set (prefixes p)\<rparr>)"
  by (auto simp: mkdir_def list_ex_iff in_set_prefixes)

lemma mkdir_Inr:
  "mkdir w p = Inr w1 \<Longrightarrow> \<forall>q \<in> set (prefixes p). files w q = None"
  by (auto simp: mkdir_def list_ex_iff split: if_splits)

lemma write_file_Inr_iff:
  "write_file w p text = Inr w1 \<longleftrightarrow>
     p \<notin> dirs w \<and> butlast p \<in> dirs w \<and> w1 = w\<lparr>files := (files w)(p \<mapsto> text)\<rparr>"
  by (auto simp: write_file_def)

lemma main_success:
  assumes rd: "read_file w input_file = Inr text"
    and ex: "extract_json_from_text text = Inr records"
    and mk: "\<forall>q \<in> set (prefixes output_directory). files w q = None"
    and c: "output_directory @ [''cleaned_data.json''] \<notin> dirs w"
    and s: "output_directory @ [''conceptual_space.json''] \<notin> dirs w"
    and g: "records \<noteq> [] \<Longrightarrow> output_directory @ [''graph.csv''] \<notin> dirs w"
  shows "main R input_file output_directory w =
    Inr (w\<lparr>files :=
            (if records \<noteq> []
             then (files w)
               (output_directory @ [''cleaned_data.json''] \<mapsto>
                  json_dumps (float_repr R) (JArray (map JObject records)),
                output_directory @ [''graph.csv''] \<mapsto> to_csv R (DataFrame records),
                output_directory @ [''conceptual_space.json''] \<mapsto>
                  json_dumps (float_repr R) (concept_json (extract_conceptual_space text)))
             else (files w)
               (output_directory @ [''cleaned_data.json''] \<mapsto>
                  json_dumps (float_repr R) (JArray (map JObject records)),
                output_directory @ [''conceptual_space.json''] \<mapsto>
                  json_dumps (float_repr R) (concept_json (extract_conceptual_space text)))),
          dirs := dirs w \<union> set (prefixes output_directory),
          stdout := stdout w @
            [''Cleaned JSON data has been saved to ''
               @ path_str (output_directory @ [''cleaned_data.json'']),
             (if records \<noteq> []
              then ''CSV data has been saved to '' @ path_str (output_directory @ [''graph.csv''])
              else ''No valid JSON objects found to save to CSV.''),
             ''Conceptual space data has been saved to ''
               @ path_str (output_directory @ [''conceptual_space.json''])]\<rparr>)"
proof -
  have p: "output_directory \<in> set (prefixes output_directory)"
    by (simp add: in_set_prefixes)
  show ?thesis
    using c s g p not_prefix_child[of output_directory]
    by (simp add: main_def rd ex Let_def mkdir_ok[OF mk] save_csv_def write_file_def print_def)
qed

lemma main_Inr:
  assumes "main R input_file output_directory w = Inr w1"
  shows "\<exists>input_text records.
      read_file w input_file = Inr input_text
    \<and> extract_json_from_text input_text = Inr records
    \<and> (\<forall>q \<in> set (prefixes output_directory). files w q = None)
    \<and> output_directory @ [''cleaned_data.json''] \<notin> dirs w
    \<and> output_directory @ [''conceptual_space.json''] \<notin> dirs w
    \<and> (records \<noteq> [] \<longrightarrow> output_directory @ [''graph.csv''] \<notin> dirs w)"
proof -
  obtain input_text where rd: "read_file w input_file = Inr input_text"
    using assms by (cases "read_file w input_file") (auto simp: main_def)
  obtain records where ex: "extract_json_from_text input_text = Inr records"
    using assms by (cases "extract_json_from_text input_text") (auto simp: main_def rd)
  obtain w1' where mk: "mkdir w output_directory = Inr w1'"
    using assms by (cases "mkdir w output_directory") (auto simp: main_def rd ex Let_def)
  have mk': "\<forall>q \<in> set (prefixes output_directory). files w q = None"
    by (rule mkdir_Inr[OF mk])
  have w1': "w1' = w\<lparr>dirs := dirs w \<union> set (prefixes output_directory)\<rparr>"
    using mk mkdir_ok[OF mk'] by simp
  have rest: "output_directory @ [''cleaned_data.json''] \<notin> dirs w
    \<and> output_directory @ [''conceptual_space.json''] \<notin> dirs w
    \<and> (records \<noteq> [] \<longrightarrow> output_directory @ [''graph.csv''] \<notin> dirs w)"
    using assms
    by (auto simp: main_def rd ex Let_def mk w1' save_csv_def write_file_def print_def
        split: if_splits sum.splits)
  show ?thesis using rd ex mk' rest by blast
qed

lemma main_stdout_irrelevant:
  "map_sum (\<lambda>(e, w'). (e, files w', dirs w')) (\<lambda>w'. (files w', dirs w'))
     (main R input_file output_directory (print w line))
   = map_sum (\<lambda>(e, w'). (e, files w', dirs w')) (\<lambda>w'. (files w', dirs w'))
     (main R input_file output_directory w)"
  unfolding main_def save_csv_def Let_def
  by (auto simp: read_file_def mkdir_def write_file_def print_def
      split: sum.splits option.splits if_splits)





lemma extract_empty: "extract_json_from_text [] = Inr []"
  by (simp add: extract_json_from_text_def findall_braces_def)

lemma concept_empty:
  \<open>json_dumps f (concept_json (extract_conceptual_space [])) =
     ''{\<newline>    "all concepts": []\<newline>}''\<close>
  by code_simp

section \<open>The output writer: claims\<close>

text \<open>
  C5. Whenever no JSON object is extracted from a readable input, and nothing on disk
  is in the way of the output directory and of the two files, the run ends normally:
  \<open>cleaned_data.json\<close> holds the empty array \<open>[]\<close>, \<open>conceptual_space.json\<close> holds the
  conceptual space, \<open>graph.csv\<close> is not written (the path holds what it held before), and
  the console reports that no valid JSON objects were found. The empty text is such an
  input, and for it the conceptual space written is the one with the empty list.
\<close>

theorem no_json_objects_outputs:
  assumes "read_file w input_file = Inr input_text"
    and "extract_json_from_text input_text = Inr []"
    and "\<forall>q \<in> set (prefixes output_directory). files w q = None"
    and "output_directory @ [''cleaned_data.json''] \<notin> dirs w"
    and "output_directory @ [''conceptual_space.json''] \<notin> dirs w"
  shows \<open>\<exists>w'. main R input_file output_directory w = Inr w'
     \<and> files w' (output_directory @ [''cleaned_data.json'']) = Some ''[]''
     \<and> files w' (output_directory @ [''conceptual_space.json'']) =
         Some (json_dumps (float_repr R) (concept_json (extract_conceptual_space input_text)))
     \<and> files w' (output_directory @ [''graph.csv'']) =
         files w (output_directory @ [''graph.csv''])
     \<and> stdout w' = stdout w @
         [''Cleaned JSON data has been saved to ''
            @ path_str (output_directory @ [''cleaned_data.json'']),
          ''No valid JSON objects found to save to CSV.'',
          ''Conceptual space data has been saved to ''
            @ path_str (output_directory @ [''conceptual_space.json''])]
     \<and> extract_json_from_text [] = Inr []
     \<and> (input_text = [] \<longrightarrow>
          files w' (output_directory @ [''conceptual_space.json'']) =
            Some ''{\<newline>    "all concepts": []\<newline>}'')\<close>
  using main_success[OF assms(1,2,3,4,5), of R] extract_empty concept_empty
  by (simp add: json_dumps_def)

theorem no_json_objects_outputs_witness:
  \<open>\<exists>w'. main \<lparr>float_repr = id, cell_text = (\<lambda>col c. []), csv_field = id\<rparr>
           [''notes.txt''] [''out'']
           \<lparr>files = [[''notes.txt''] \<mapsto> []], dirs = {[]}, stdout = []\<rparr> = Inr w'
     \<and> files w' [''out'', ''cleaned_data.json''] = Some ''[]''
     \<and> files w' [''out'', ''conceptual_space.json''] =
          Some ''{\<newline>    "all concepts": []\<newline>}''
     \<and> files w' [''out'', ''graph.csv''] = None
     \<and> stdout w' =
         [''Cleaned JSON data has been saved to out/cleaned_data.json'',
          ''No valid JSON objects found to save to CSV.'',
          ''Conceptual space data has been saved to out/conceptual_space.json'']\<close>
proof -
  let ?w = "\<lparr>files = [[''notes.txt''] \<mapsto> []], dirs = {[]}, stdout = []\<rparr>"
  have 1: "read_file ?w [''notes.txt''] = Inr []" by (simp add: read_file_def)
  have 2: "extract_json_from_text [] = Inr []"
    by (simp add: extract_json_from_text_def findall_braces_def)
  have 3: "\<forall>q \<in> set (prefixes [''out'']). files ?w q = None" by simp
  have 4: "[''out''] @ [''cleaned_data.json''] \<notin> dirs ?w" by simp
  have 5: "[''out''] @ [''conceptual_space.json''] \<notin> dirs ?w" by simp
  from no_json_objects_outputs[OF 1 2 3 4 5,
        of "\<lparr>float_repr = id, cell_text = (\<lambda>col c. []), csv_field = id\<rparr>"]
  show ?thesis
    by (auto simp: path_str_def)
qed



text \<open>
  C6. If a run ends normally and leaves the input file as it was, a second run on the
  same input and output directory ends normally as well and leaves every file and
  directory as the first run left them: the three outputs are rewritten with identical
  contents (and \<open>graph.csv\<close> is again not written when the first run did not write it).
\<close>

theorem second_run_same_outputs:
  assumes "main R input_file output_directory w = Inr w1"
    and "files w1 input_file = files w input_file"
  shows "\<exists>w2. main R input_file output_directory w1 = Inr w2
           \<and> files w2 = files w1 \<and> dirs w2 = dirs w1"
proof -
  from main_Inr[OF assms(1)] obtain input_text records where
    rd: "read_file w input_file = Inr input_text"
    and ex: "extract_json_from_text input_text = Inr records"
    and mk: "\<forall>q \<in> set (prefixes output_directory). files w q = None"
    and c: "output_directory @ [''cleaned_data.json''] \<notin> dirs w"
    and s: "output_directory @ [''conceptual_space.json''] \<notin> dirs w"
    and g: "records \<noteq> [] \<longrightarrow> output_directory @ [''graph.csv''] \<notin> dirs w"
    by blast
  have g': "records \<noteq> [] \<Longrightarrow> output_directory @ [''graph.csv''] \<notin> dirs w"
    using g by simp
  note first = main_success[OF rd ex mk c s g', of R]
  have w1: "files w1 = (if records \<noteq> []
             then (files w)
               (output_directory @ [''cleaned_data.json''] \<mapsto>
                  json_dumps (float_repr R) (JArray (map JObject records)),
                output_directory @ [''graph.csv''] \<mapsto> to_csv R (DataFrame records),
                output_directory @ [''conceptual_space.json''] \<mapsto>
                  json_dumps (float_repr R) (concept_json (extract_conceptual_space input_text)))
             else (files w)
               (output_directory @ [''cleaned_data.json''] \<mapsto>
                  json_dumps (float_repr R) (JArray (map JObject records)),
                output_directory @ [''conceptual_space.json''] \<mapsto>
                  json_dumps (float_repr R) (concept_json (extract_conceptual_space input_text))))"
    and d1: "dirs w1 = dirs w \<union> set (prefixes output_directory)"
    using assms(1) first by auto
  have inp: "input_file \<notin> dirs w" "files w input_file = Some input_text"
    using rd by (auto simp: read_file_def split: if_splits option.splits)
  have np: "input_file \<notin> set (prefixes output_directory)"
    using inp(2) mk by auto
  have rd1: "read_file w1 input_file = Inr input_text"
    using inp np assms(2) d1 by (simp add: read_file_def)
  have mk1: "\<forall>q \<in> set (prefixes output_directory). files w1 q = None"
  proof
    fix q assume q: "q \<in> set (prefixes output_directory)"
    then have "q \<noteq> output_directory @ [''cleaned_data.json'']"
      "q \<noteq> output_directory @ [''graph.csv'']"
      "q \<noteq> output_directory @ [''conceptual_space.json'']"
      using not_prefix_child[of output_directory] by auto
    then show "files w1 q = None" using mk q by (simp add: w1)
  qed
  have c1: "output_directory @ [''cleaned_data.json''] \<notin> dirs w1"
    and s1: "output_directory @ [''conceptual_space.json''] \<notin> dirs w1"
    and g1: "records \<noteq> [] \<Longrightarrow> output_directory @ [''graph.csv''] \<notin> dirs w1"
    using c s g' not_prefix_child[of output_directory] by (simp_all add: d1)
  note second = main_success[OF rd1 ex mk1 c1 s1 g1, of R]
  obtain w2 where m2: "main R input_file output_directory w1 = Inr w2"
    and f2: "files w2 = (if records \<noteq> []
             then (files w1)
               (output_directory @ [''cleaned_data.json''] \<mapsto>
                  json_dumps (float_repr R) (JArray (map JObject records)),
                output_directory @ [''graph.csv''] \<mapsto> to_csv R (DataFrame records),
                output_directory @ [''conceptual_space.json''] \<mapsto>
                  json_dumps (float_repr R) (concept_json (extract_conceptual_space input_text)))
             else (files w1)
               (output_directory @ [''cleaned_data.json''] \<mapsto>
                  json_dumps (float_repr R) (JArray (map JObject records)),
                output_directory @ [''conceptual_space.json''] \<mapsto>
                  json_dumps (float_repr R) (concept_json (extract_conceptual_space input_text))))"
    and d2: "dirs w2 = dirs w1 \<union> set (prefixes output_directory)"
    by (rule that[OF second]) simp_all
  have "files w2 = files w1"
    unfolding f2 w1 by (auto simp: fun_eq_iff)
  moreover have "dirs w2 = dirs w1"
    unfolding d2 d1 by auto
  ultimately show ?thesis using m2 by blast
qed

theorem second_run_same_outputs_witness:
  \<open>\<exists>w1 w2.
      main \<lparr>float_repr = id, cell_text = (\<lambda>col c. []), csv_field = id\<rparr>
        [''notes.txt''] [''out'']
        \<lparr>files = [[''notes.txt''] \<mapsto> ''see {"a": 1} [x, y]''], dirs = {[]}, stdout = []\<rparr> = Inr w1
    \<and> files w1 [''notes.txt''] = Some ''see {"a": 1} [x, y]''
    \<and> main \<lparr>float_repr = id, cell_text = (\<lambda>col c. []), csv_field = id\<rparr>
        [''notes.txt''] [''out''] w1 = Inr w2
    \<and> files w2 = files w1 \<and> dirs w2 = dirs w1\<close>
proof -
  define R where "R = \<lparr>float_repr = id, cell_text = (\<lambda>col c. []), csv_field = id\<rparr>"
  define w where
    \<open>w = \<lparr>files = [[''notes.txt''] \<mapsto> ''see {"a": 1} [x, y]''], dirs = {[]}, stdout = []\<rparr>\<close>
  define records where
    "records = [[(''a'', JInt 1), (''chunk_id'', JString ''42b7b4f2921788ea14dac5566e6f06d0'')]]"
  define input_text where \<open>input_text = ''see {"a": 1} [x, y]''\<close>
  have 1: "read_file w [''notes.txt''] = Inr input_text"
    by (simp add: read_file_def w_def input_text_def)
  have 2: "extract_json_from_text input_text = Inr records"
    unfolding input_text_def records_def by code_simp
  have 4: "\<forall>q \<in> set (prefixes [''out'']). files w q = None" by (simp add: w_def)
  have 5: "[''out''] @ [''cleaned_data.json''] \<notin> dirs w" by (simp add: w_def)
  have 6: "[''out''] @ [''conceptual_space.json''] \<notin> dirs w" by (simp add: w_def)
  have 7: "records \<noteq> [] \<Longrightarrow> [''out''] @ [''graph.csv''] \<notin> dirs w" by (simp add: w_def)
  from main_success[OF 1 2 4 5 6 7, of R]
  obtain w1 where m1: "main R [''notes.txt''] [''out''] w = Inr w1"
    and f1: "files w1 [''notes.txt''] = files w [''notes.txt'']"
    by (simp add: records_def)
  from second_run_same_outputs[OF m1 f1]
  obtain w2 where m2: "main R [''notes.txt''] [''out''] w1 = Inr w2"
    and e: "files w2 = files w1" "dirs w2 = dirs w1"
    by (elim exE conjE)
  have f1': "files w1 [''notes.txt''] = Some input_text"
    using f1 by (simp add: w_def input_text_def)
  show ?thesis
    using m1 f1' m2 e unfolding R_def w_def input_text_def by blast
qed

text \<open>
  C8. The line entered at the prompt is not passed on: the script runs \<open>main\<close> on the
  two command-line arguments whatever is entered, so two entered lines give the same
  run, and a run after the timeout leaves the same files and directories (and the same
  error, if any) as a run after an entered line; only the console shows the timeout.
\<close>

theorem prompt_answer_ignored:
  "script R input_file output_directory (Entered a) w =
     main R input_file output_directory
       (print w ''Please enter the output filename (default is 'clean_json'):'')
   \<and> script R input_file output_directory (Entered a) w =
       script R input_file output_directory (Entered b) w
   \<and> map_sum (\<lambda>(e, w'). (e, files w', dirs w')) (\<lambda>w'. (files w', dirs w'))
       (script R input_file output_directory TimedOut w)
     = map_sum (\<lambda>(e, w'). (e, files w', dirs w')) (\<lambda>w'. (files w', dirs w'))
       (script R input_file output_directory (Entered a) w)"
  by (simp add: script_def Let_def main_stdout_irrelevant)

end
